theory Spec2Isabelle
  imports Main
begin

section \<open>Host editor values: positions, ranges, documents\<close>

text \<open>
  The rescan code works on the editor's \<open>Position\<close> (line, character) and \<open>Range\<close>
  values and reads the text buffer through \<open>positionAt\<close>, \<open>offsetAt\<close> and \<open>getText\<close>.
  These belong to the host editor, not to the repository; they are written out here with
  the behaviour the editor documents, for buffers whose line terminator is the single
  character LF.
\<close>

datatype position = Position (line: nat) (character: nat)

definition isBefore :: "position \<Rightarrow> position \<Rightarrow> bool" where
  "isBefore p q = (line p < line q \<or> (line p = line q \<and> character p < character q))"

definition isBeforeOrEqual :: "position \<Rightarrow> position \<Rightarrow> bool" where
  "isBeforeOrEqual p q = (line p < line q \<or> (line p = line q \<and> character p \<le> character q))"

definition isAfter :: "position \<Rightarrow> position \<Rightarrow> bool" where
  "isAfter p q = (\<not> isBeforeOrEqual p q)"

definition Position_Min :: "position \<Rightarrow> position \<Rightarrow> position" where
  "Position_Min p q = (if isBefore q p then q else p)"

definition Position_Max :: "position \<Rightarrow> position \<Rightarrow> position" where
  "Position_Max p q = (if isAfter q p then q else p)"

text \<open>
  \<open>translate(0, delta)\<close> moves the character by \<open>delta\<close>. The editor rejects a negative
  result; the only call with a negative delta is guarded by \<open>character > 0\<close>.
\<close>

definition translate_character :: "position \<Rightarrow> int \<Rightarrow> position" where
  "translate_character p delta = Position (line p) (nat (int (character p) + delta))"

datatype range = Range_raw (range_start: position) (range_end: position)

text \<open>The constructor \<open>new Range(a, b)\<close> orders its two end points.\<close>

definition Range :: "position \<Rightarrow> position \<Rightarrow> range" where
  "Range a b = (if isBefore a b then Range_raw a b else Range_raw b a)"

definition contains_position :: "range \<Rightarrow> position \<Rightarrow> bool" where
  "contains_position r p = (\<not> isBefore p (range_start r) \<and> \<not> isBefore (range_end r) p)"

definition contains_range :: "range \<Rightarrow> range \<Rightarrow> bool" where
  "contains_range r other =
     (contains_position r (range_start other) \<and> contains_position r (range_end other))"

text \<open>
  \<open>intersection\<close> is \<open>undefined\<close> only when the later start lies strictly after the
  earlier end: two ranges that merely touch intersect in an empty range.
\<close>

definition intersection :: "range \<Rightarrow> range \<Rightarrow> range option" where
  "intersection r other =
     (let s = Position_Max (range_start other) (range_start r);
          e = Position_Min (range_end other) (range_end r)
      in if isAfter s e then None else Some (Range s e))"

definition union_range :: "range \<Rightarrow> range \<Rightarrow> range" where
  "union_range r other =
     (if contains_range r other then r
      else if contains_range other r then other
      else Range (Position_Min (range_start other) (range_start r))
                 (Position_Max (range_end other) (range_end r)))"

record textDocument =
  fileName :: string
  getText :: string

definition LF :: char where
  "LF = CHR 0x0A"

text \<open>\<open>positionAt\<close> clamps the offset to the text and counts lines and columns up to it.\<close>

definition step_position :: "position \<Rightarrow> char \<Rightarrow> position" where
  "step_position p c =
     (if c = LF then Position (line p + 1) 0 else Position (line p) (character p + 1))"

definition positionAt :: "textDocument \<Rightarrow> nat \<Rightarrow> position" where
  "positionAt doc off = foldl step_position (Position 0 0) (take off (getText doc))"

text \<open>
  \<open>offsetAt\<close> first validates the position: a line past the last one becomes the end of
  the text, a character past the end of its line becomes the end of that line.
\<close>

fun offset_in :: "string \<Rightarrow> nat \<Rightarrow> nat \<Rightarrow> nat" where
  "offset_in [] l c = 0"
| "offset_in (x # xs) l c =
     (if l = 0 then (if c = 0 \<or> x = LF then 0 else 1 + offset_in xs 0 (c - 1))
      else 1 + offset_in xs (if x = LF then l - 1 else l) c)"

definition offsetAt :: "textDocument \<Rightarrow> position \<Rightarrow> nat" where
  "offsetAt doc p = offset_in (getText doc) (line p) (character p)"

definition getText_range :: "textDocument \<Rightarrow> range \<Rightarrow> string" where
  "getText_range doc r =
     (let s = offsetAt doc (range_start r); e = offsetAt doc (range_end r)
      in take (e - s) (drop s (getText doc)))"

text \<open>
  A content change event names the replaced range (in the coordinates of the text before
  the edit) and the text put in its place. The host applies it to the buffer before the
  listeners run.
\<close>

record contentChange =
  change_range :: range
  change_text :: string

definition applyChange :: "textDocument \<Rightarrow> contentChange \<Rightarrow> textDocument" where
  "applyChange doc ch =
     (let s = offsetAt doc (range_start (change_range ch));
          e = offsetAt doc (range_end (change_range ch))
      in doc\<lparr>getText := take s (getText doc) @ change_text ch @ drop e (getText doc)\<rparr>)"

section \<open>Regular expressions\<close>

text \<open>
  The pattern engine is the language's built-in \<open>RegExp\<close>. A compiled expression is
  represented by what the scan loops use of it: \<open>search s i\<close> is the leftmost match in
  \<open>s\<close> that starts at index \<open>i\<close> or later, as the pair of its index and the length of
  the matched text, and \<open>global\<close> tells whether \<open>exec\<close> reads and advances
  \<open>lastIndex\<close> (flag \<open>g\<close>). The constructor \<open>new RegExp(pattern, flags)\<close> is a
  parameter of every function that compiles a pattern; \<open>None\<close> is the \<open>SyntaxError\<close>
  it throws for a malformed pattern.
\<close>

record regExp =
  search :: "string \<Rightarrow> nat \<Rightarrow> (nat \<times> nat) option"
  global :: bool

type_synonym engine = "string \<Rightarrow> string \<Rightarrow> regExp option"

text \<open>
  \<open>exec\<close> returns the match, if any, and the new value of \<open>lastIndex\<close>. With the
  global flag the search starts at \<open>lastIndex\<close>, which becomes the end of the match (so
  an empty match leaves it where it was) or 0 on failure; without it the search always
  starts at 0 and \<open>lastIndex\<close> is left alone.
\<close>

definition exec :: "regExp \<Rightarrow> nat \<Rightarrow> string \<Rightarrow> (nat \<times> nat) option \<times> nat" where
  "exec re lastIndex s =
     (if global re then
        (if length s < lastIndex then (None, 0)
         else (case search re s lastIndex of
                 None \<Rightarrow> (None, 0)
               | Some (i, n) \<Rightarrow> (Some (i, n), i + n)))
      else
        (case search re s 0 of
           None \<Rightarrow> (None, lastIndex)
         | Some (i, n) \<Rightarrow> (Some (i, n), lastIndex)))"

text \<open>\<open>test\<close> on a freshly built expression: is there a match at all.\<close>

definition test :: "regExp \<Rightarrow> string \<Rightarrow> bool" where
  "test re s = (fst (exec re 0 s) \<noteq> None)"

datatype error = SyntaxError | Error string

text \<open>\<open>xs.splice(start, deleteCount, ...items)\<close> for a non-negative start.\<close>

definition splice :: "'a list \<Rightarrow> nat \<Rightarrow> nat \<Rightarrow> 'a list \<Rightarrow> 'a list" where
  "splice xs start deleteCount items = take start xs @ items @ drop (start + deleteCount) xs"

section \<open>Rules\<close>

text \<open>
  Modelled from the spec: the declaration of \<open>LineRange\<close> is not among the sources at
  hand. It is the serialized form of one match, as the webview receives it: the rule id,
  the ordinal, the line numbers spanned, the text of those lines, and the start and
  end-exclusive offsets relative to the first line; the field names are those of the object
  built in \<open>toLineRanges\<close>.
\<close>

record lineRange =
  ruleId :: string
  index :: int
  lines :: "string list"
  lineNumbers :: "nat list"
  startIndex :: int
  endIndexExcl :: int
  selectionNumber :: int

text \<open>
  A rule, with the fields of the \<open>Rule\<close> interface and the two further properties the
  code reads and writes on it (\<open>regularExpressionFlags\<close>, which may be absent, and
  \<open>lineRanges\<close>). \<open>maxOccurrences\<close> and \<open>occurrences\<close> are counts or \<open>null\<close>.
\<close>

record rule =
  enabled :: bool
  expanded :: bool
  decorationExpanded :: bool
  rule_id :: string
  title :: string
  overviewRulerLane :: nat
  overviewRulerColor :: string
  occurrences :: "nat option"
  maxOccurrences :: "nat option"
  regularExpression :: string
  regularExpressionFlags :: "string option"
  includedFiles :: string
  excludedFiles :: string
  backgroundColor :: string
  outline :: string
  outlineColor :: string
  outlineWidth :: string
  border :: string
  borderColor :: string
  borderWidth :: string
  fontStyle :: string
  fontWeight :: string
  textDecoration :: string
  cursor :: string
  color :: string
  isWholeLine :: bool
  lineRanges :: "lineRange list"

text \<open>\<open>rule.regularExpressionFlags || 'g'\<close>: an absent or empty flag string is \<open>g\<close>.\<close>

definition flags_or_g :: "rule \<Rightarrow> string" where
  "flags_or_g r =
     (case regularExpressionFlags r of
        None \<Rightarrow> ''g''
      | Some f \<Rightarrow> if f = [] then ''g'' else f)"

text \<open>\<open>rule.maxOccurrences ?? 1000\<close>\<close>

definition cap :: "rule \<Rightarrow> nat" where
  "cap r = (case maxOccurrences r of None \<Rightarrow> 1000 | Some n \<Rightarrow> n)"

text \<open>
  One decoration: the range and the hover message \<open>Rule: <title>\n #<occurrence>\<close>, kept
  as its two variable parts.
\<close>

record decorationOptions =
  dec_range :: range
  hover_title :: string
  hover_occurrence :: int

section \<open>The full scan\<close>

text \<open>
  The scan loop of \<open>DecorationTypeWrapper.updateOccurrences\<close> and of
  \<open>DecorationTypeManager.updateDecorations\<close> (the two loops are the same text):
  \<open>while ((match = regEx.exec(text)) && decorations.length < (rule.maxOccurrences ?? 1000))\<close>.
  \<open>exec\<close> runs first, then the length test; each round appends one decoration and one
  range. The arguments are the loop's variables.
\<close>

function scan_loop ::
  "textDocument \<Rightarrow> rule \<Rightarrow> regExp \<Rightarrow> nat \<Rightarrow> int \<Rightarrow> decorationOptions list \<Rightarrow> range list
     \<Rightarrow> decorationOptions list \<times> range list" where
  "scan_loop doc r re lastIndex occurrence decorations ranges =
     (case exec re lastIndex (getText doc) of
        (None, _) \<Rightarrow> (decorations, ranges)
      | (Some (i, n), lastIndex') \<Rightarrow>
          if length decorations < cap r then
            (let startPos = positionAt doc i;
                 endPos = positionAt doc (i + n);
                 rg = Range startPos endPos;
                 decoration = \<lparr>dec_range = rg, hover_title = title r,
                                hover_occurrence = occurrence + 1\<rparr>
             in scan_loop doc r re lastIndex' (occurrence + 1)
                  (decorations @ [decoration]) (ranges @ [rg]))
          else (decorations, ranges))"
  by pat_completeness auto
termination
  by (relation "measure (\<lambda>(doc, r, re, lastIndex, occurrence, decorations, ranges).
                           cap r - length decorations)") auto

declare scan_loop.simps [simp del]

section \<open>The decoration type wrapper\<close>

text \<open>
  Calls made on the host's text editor are recorded in the order they are made;
  \<open>editorId\<close> stands for the identity of the editor object.
\<close>

datatype editorCall =
    SetDecorations nat "decorationOptions list"
  | RevealRange range

record textEditor =
  editorId :: nat
  document :: textDocument
  calls :: "editorCall list"

text \<open>
  An operation either returns or throws; in both cases the state it reached is kept,
  since what was assigned before a \<open>throw\<close> stays assigned.
\<close>

datatype 's outcome = Returns 's | Throws error 's

text \<open>
  The wrapper's fields. \<open>w_document\<close> is the reference to the live buffer, so it holds
  the buffer's current text; \<open>decorationType\<close> is the handle the host gave out for the
  rule's style.
\<close>

record wrapper =
  w_document :: textDocument
  w_rule :: rule
  decorationType :: nat
  decorationOptions :: "decorationOptions list"
  activeOccurrences :: "range list"

text \<open>
  The result record of the lookup. The declaration of \<open>IntersectingRangeData\<close> is not
  among the sources at hand; the fields are those of the three object literals that
  \<open>removeIntersectingOccurrences\<close> returns. \<open>range\<close> is left out by two of them,
  \<open>insertIndex\<close> by none.
\<close>

record intersectingRangeData =
  removed :: int
  ird_range :: "range option"
  insertIndex :: int

definition getFullLineRange :: "range \<Rightarrow> range" where
  "getFullLineRange r =
     (let newStart = Position (line (range_start r)) 0;
          newEnd = Position (line (range_end r) + 1) 0
      in Range newStart newEnd)"

text \<open>
  Lines 162 to 167 of \<open>removeIntersectingOccurrences\<close>: the range is shifted by one
  character on either end.
\<close>

definition shiftRange :: "range \<Rightarrow> range" where
  "shiftRange contentChangeRange =
     (let newStart = (if character (range_start contentChangeRange) > 0
                      then translate_character (range_start contentChangeRange) (- 1)
                      else range_start contentChangeRange);
          newEnd = translate_character (range_end contentChangeRange) 1
      in Range newStart newEnd)"

text \<open>
  The two walks outward from the probed index. \<open>left\<close> starts just below an index that
  was read and only decreases, \<open>right\<close> starts just above it and only increases, so
  neither is ever on the far side of the array.
\<close>

function walkLeft :: "range list \<Rightarrow> range \<Rightarrow> int \<Rightarrow> range \<Rightarrow> int \<times> range" where
  "walkLeft occs contentChangeRange left span =
     (if 0 \<le> left \<and> left < int (length occs) then
        (case intersection contentChangeRange (occs ! nat left) of
           Some newIntersection \<Rightarrow>
             walkLeft occs contentChangeRange (left - 1) (union_range newIntersection span)
         | None \<Rightarrow> (left, span))
      else (left, span))"
  by pat_completeness auto
termination
  by (relation "measure (\<lambda>(occs, contentChangeRange, left, span). nat (left + 1))") auto

declare walkLeft.simps [simp del]

function walkRight :: "range list \<Rightarrow> range \<Rightarrow> int \<Rightarrow> range \<Rightarrow> int \<times> range" where
  "walkRight occs contentChangeRange right span =
     (if 0 \<le> right \<and> right < int (length occs) then
        (case intersection contentChangeRange (occs ! nat right) of
           Some newIntersection \<Rightarrow>
             walkRight occs contentChangeRange (right + 1) (union_range newIntersection span)
         | None \<Rightarrow> (right, span))
      else (right, span))"
  by pat_completeness auto
termination
  by (relation "measure (\<lambda>(occs, contentChangeRange, right, span).
                           nat (int (length occs) - right))") auto

declare walkRight.simps [simp del]

definition notFound :: "int \<Rightarrow> intersectingRangeData" where
  "notFound left = \<lparr>removed = 0, ird_range = None, insertIndex = left + 1\<rparr>"

text \<open>
  The binary search, on the shifted range. An index outside the array reads
  \<open>undefined\<close> and ends the search.
\<close>

function searchOccurrences ::
  "wrapper \<Rightarrow> range \<Rightarrow> int \<Rightarrow> int \<Rightarrow> intersectingRangeData \<times> wrapper" where
  "searchOccurrences w contentChangeRange left right =
     (if left \<le> right then
        (let middle = (left + right) div 2 in
         if middle < 0 \<or> int (length (activeOccurrences w)) \<le> middle then (notFound left, w)
         else
           (let midRange = activeOccurrences w ! nat middle in
            case intersection midRange contentChangeRange of
              Some _ \<Rightarrow>
                (let span0 = union_range contentChangeRange midRange;
                     (left', span1) =
                        walkLeft (activeOccurrences w) contentChangeRange (middle - 1) span0;
                     (right', span2) =
                        walkRight (activeOccurrences w) contentChangeRange (middle + 1) span1
                 in (\<lparr>removed = right' - (left' + 1), ird_range = Some span2,
                       insertIndex = left' + 1\<rparr>,
                     w\<lparr>decorationOptions :=
                          splice (decorationOptions w) (nat (left' + 1))
                            (nat (right' - (left' + 1))) [],
                        activeOccurrences :=
                          splice (activeOccurrences w) (nat (left' + 1))
                            (nat (right' - (left' + 1))) []\<rparr>))
            | None \<Rightarrow>
                if isBeforeOrEqual (range_start midRange) (range_start contentChangeRange)
                then searchOccurrences w contentChangeRange (middle + 1) right
                else searchOccurrences w contentChangeRange left (middle - 1)))
      else (notFound left, w))"
  by pat_completeness auto
termination
  by (relation "measure (\<lambda>(w, contentChangeRange, left, right). nat (right - left + 1))") auto

declare searchOccurrences.simps [simp del]

definition removeIntersectingOccurrences ::
  "wrapper \<Rightarrow> range \<Rightarrow> intersectingRangeData \<times> wrapper" where
  "removeIntersectingOccurrences w contentChangeRange =
     searchOccurrences w (shiftRange contentChangeRange) 0
       (int (length (activeOccurrences w)) - 1)"

text \<open>
  The rescan loop of \<open>generateOccurrencesOnChange\<close>:
  \<open>while ((match = regEx.exec(text)) && this.decorationOptions.length < (this.rule.maxOccurrences ?? 1000))\<close>.
  The length tested is that of the wrapper's own list, while the loop appends to
  \<open>newDecorations\<close> and \<open>newOccurrences\<close>. Nothing in the loop bounds the number of
  rounds, so the model counts them down from a budget and returns \<open>None\<close> when the
  budget is used up.
\<close>

fun rescan_loop ::
  "nat \<Rightarrow> wrapper \<Rightarrow> regExp \<Rightarrow> string \<Rightarrow> nat \<Rightarrow> nat \<Rightarrow> int \<Rightarrow> decorationOptions list \<Rightarrow> range list
     \<Rightarrow> (decorationOptions list \<times> range list) option" where
  "rescan_loop 0 w regEx text offset lastIndex occurrence newDecorations newOccurrences = None"
| "rescan_loop (Suc budget) w regEx text offset lastIndex occurrence newDecorations
     newOccurrences =
     (case exec regEx lastIndex text of
        (None, _) \<Rightarrow> Some (newDecorations, newOccurrences)
      | (Some (i, n), lastIndex') \<Rightarrow>
          if length (decorationOptions w) < cap (w_rule w) then
            (let startPos = positionAt (w_document w) (offset + i);
                 endPos = positionAt (w_document w) (offset + i + n);
                 rg = Range startPos endPos;
                 decoration = \<lparr>dec_range = rg, hover_title = title (w_rule w),
                                hover_occurrence = occurrence + 1\<rparr>
             in rescan_loop budget w regEx text offset lastIndex' (occurrence + 1)
                  (newDecorations @ [decoration]) (newOccurrences @ [rg]))
          else Some (newDecorations, newOccurrences))"

text \<open>\<open>items.forEach((x, i) => xs.splice(at + i, 0, x))\<close>, with \<open>at\<close> the insert index\<close>

definition spliceEach :: "'a list \<Rightarrow> int \<Rightarrow> 'a list \<Rightarrow> 'a list" where
  "spliceEach xs at items =
     foldl (\<lambda>acc (i, x). splice acc (nat (at + int i)) 0 [x]) xs (enumerate 0 items)"

definition generateOccurrencesOnChange ::
  "engine \<Rightarrow> nat \<Rightarrow> wrapper \<Rightarrow> contentChange \<Rightarrow> wrapper outcome option" where
  "generateOccurrencesOnChange new_RegExp budget w contentChange =
     (let (intersectingRangeData, w1) =
            removeIntersectingOccurrences w (getFullLineRange (change_range contentChange))
      in if removed intersectingRangeData > 0 \<and> ird_range intersectingRangeData = None then
           Some (Throws
             (Error ''Intersecting Range Data should contain a range if removed > 0.'') w1)
         else
           (let textRange = getFullLineRange
                  (case ird_range intersectingRangeData of
                     Some r \<Rightarrow> r
                   | None \<Rightarrow> change_range contentChange);
                text = getText_range (w_document w1) textRange
            in case new_RegExp (regularExpression (w_rule w1)) (flags_or_g (w_rule w1)) of
                 None \<Rightarrow> Some (Throws SyntaxError w1)
               | Some regEx \<Rightarrow>
                   (let at = insertIndex intersectingRangeData;
                        occurrence = at + 1;
                        offset = offsetAt (w_document w1) (range_start textRange)
                    in case rescan_loop budget w1 regEx text offset 0 occurrence [] [] of
                         None \<Rightarrow> None
                       | Some (newDecorations, newOccurrences) \<Rightarrow>
                           Some (Returns (w1\<lparr>
                             decorationOptions :=
                               spliceEach (decorationOptions w1) at newDecorations,
                             activeOccurrences :=
                               spliceEach (activeOccurrences w1) at newOccurrences\<rparr>)))))"

definition applyDecorationsToEditor :: "wrapper \<Rightarrow> textEditor \<Rightarrow> textEditor outcome" where
  "applyDecorationsToEditor w activeEditor =
     (if fileName (document activeEditor) \<noteq> fileName (w_document w) then
        Throws (Error (''CANNOT APPLY DECORATIONS TO DIFFERENT DOCUMENT - obs -> ''
                       @ fileName (document activeEditor) @ '' != expected ->''
                       @ fileName (w_document w))) activeEditor
      else Returns (activeEditor\<lparr>calls := calls activeEditor
                      @ [SetDecorations (decorationType w) (decorationOptions w)]\<rparr>))"

text \<open>
  The full rebuild. The rule reference is replaced first, so it stays replaced when the
  pattern does not compile.
\<close>

definition updateOccurrences ::
  "engine \<Rightarrow> wrapper \<Rightarrow> textDocument \<Rightarrow> rule option \<Rightarrow> wrapper outcome" where
  "updateOccurrences new_RegExp w doc ruleArg =
     (let r = (case ruleArg of Some r' \<Rightarrow> r' | None \<Rightarrow> w_rule w);
          w1 = w\<lparr>w_rule := r\<rparr>
      in case new_RegExp (regularExpression r) (flags_or_g r) of
           None \<Rightarrow> Throws SyntaxError w1
         | Some regEx \<Rightarrow>
             (let (decorations, ranges) = scan_loop doc r regEx 0 0 [] []
              in Returns (w1\<lparr>decorationOptions := decorations, activeOccurrences := ranges\<rparr>)))"

definition clearOccurrenceData :: "wrapper \<Rightarrow> wrapper" where
  "clearOccurrenceData w = w\<lparr>activeOccurrences := [], decorationOptions := []\<rparr>"

section \<open>An engine for plain patterns\<close>

text \<open>
  To run the code on concrete inputs, the part of the pattern language that needs no
  interpretation: a pattern made of letters, digits and blanks only (the empty pattern
  included) matches exactly its own text, at the leftmost place at or after the start
  index. The flags accepted are \<open>g\<close> and \<open>m\<close>, each at most once; \<open>m\<close> changes nothing
  for such a pattern. Everything else is rejected here; of the rejected patterns only
  \<open>(\<close> is used below, an unterminated group, which the built-in constructor rejects
  with a \<open>SyntaxError\<close> as well.
\<close>

fun find_from :: "string \<Rightarrow> string \<Rightarrow> nat \<Rightarrow> nat option" where
  "find_from p [] k = (if p = [] then Some k else None)"
| "find_from p (c # cs) k =
     (if take (length p) (c # cs) = p then Some k else find_from p cs (Suc k))"

definition plain_search :: "string \<Rightarrow> string \<Rightarrow> nat \<Rightarrow> (nat \<times> nat) option" where
  "plain_search p s i =
     (if length s < i then None
      else map_option (\<lambda>k. (k, length p)) (find_from p (drop i s) i))"

definition plain_char :: "char \<Rightarrow> bool" where
  "plain_char c = (c \<in> set ''abcdefghijklmnopqrstuvwxyzABCDEFGHIJKLMNOPQRSTUVWXYZ0123456789 '')"

definition plain_RegExp :: engine where
  "plain_RegExp pattern flags =
     (if list_all plain_char pattern \<and> distinct flags
         \<and> list_all (\<lambda>c. c = CHR ''g'' \<or> c = CHR ''m'') flags
      then Some \<lparr>search = plain_search pattern, global = (CHR ''g'' \<in> set flags)\<rparr>
      else None)"

section \<open>The rule factory\<close>

text \<open>
  The factory keeps the rules in the extension's storage, as the entry list of a map from
  ids to rules and as an array. Writes to the storage are taken in program order. The
  values sent on the \<open>$enabledRules\<close> stream and the messages handed to the view
  provider are recorded in order; the provider is taken to be attached.
\<close>

text \<open>
  The enumeration \<open>LocationState\<close> is not among the sources at hand either; the manager
  keeps one entry per rule factory, the one of the workspace and the global one.
\<close>

datatype locationState = LOCAL | GLOBAL

datatype message =
    RuleDecorationUpdate string "lineRange list" nat
  | PushRules

record ruleFactory =
  location :: locationState
  locked :: bool
  rulesMap :: "(string \<times> rule) list"
  rulesArray :: "rule list"
  enabledRules_sent :: "rule list list"
  posted :: "message list"

definition map_has :: "('k \<times> 'v) list \<Rightarrow> 'k \<Rightarrow> bool" where
  "map_has kvs k = (k \<in> set (map fst kvs))"

fun map_set :: "('k \<times> 'v) list \<Rightarrow> 'k \<Rightarrow> 'v \<Rightarrow> ('k \<times> 'v) list" where
  "map_set [] k v = [(k, v)]"
| "map_set ((k', v') # kvs) k v =
     (if k' = k then (k, v) # kvs else (k', v') # map_set kvs k v)"

text \<open>The constructor \<open>new Rule(title)\<close>; the fresh uuid is an argument.\<close>

definition new_Rule :: "string \<Rightarrow> string \<Rightarrow> rule" where
  "new_Rule uuid t =
     \<lparr>enabled = False, expanded = False, decorationExpanded = False, rule_id = uuid,
      title = t, overviewRulerLane = 7, overviewRulerColor = [], occurrences = Some 0,
      maxOccurrences = Some 1000, regularExpression = [], regularExpressionFlags = None,
      includedFiles = [], excludedFiles = [], backgroundColor = [], outline = [],
      outlineColor = [], outlineWidth = [], border = [], borderColor = [], borderWidth = [],
      fontStyle = [], fontWeight = ''400'', textDecoration = [], cursor = [], color = [],
      isWholeLine = False, lineRanges = []\<rparr>"

definition recastEnabledRules :: "ruleFactory \<Rightarrow> ruleFactory" where
  "recastEnabledRules f =
     f\<lparr>enabledRules_sent := enabledRules_sent f @ [filter enabled (rulesArray f)]\<rparr>"

definition updateRules :: "ruleFactory \<Rightarrow> (string \<times> rule) list \<Rightarrow> rule list \<Rightarrow> ruleFactory" where
  "updateRules f newMap newArray =
     (let f1 = recastEnabledRules (f\<lparr>rulesMap := newMap, rulesArray := newArray\<rparr>)
      in f1\<lparr>posted := posted f1 @ [PushRules]\<rparr>)"

text \<open>
  \<open>addRule\<close> is an \<open>async\<close> method: its \<open>throw\<close> reaches the caller as a rejected
  promise.
\<close>

definition addRule :: "ruleFactory \<Rightarrow> rule \<Rightarrow> ruleFactory outcome" where
  "addRule f r =
     (if map_has (rulesMap f) (rule_id r) then
        Throws (Error (''Rule ID: '' @ rule_id r
                       @ '' cannot be added to rule factory due to conflict.'')) f
      else Returns (updateRules f (map_set (rulesMap f) (rule_id r) r) (rulesArray f @ [r])))"

definition updateRuleWithNoSideEffects :: "ruleFactory \<Rightarrow> rule \<Rightarrow> ruleFactory" where
  "updateRuleWithNoSideEffects f r =
     f\<lparr>rulesMap := map_set (rulesMap f) (rule_id r) r,
       rulesArray := map (\<lambda>v. if rule_id v = rule_id r then r else v) (rulesArray f)\<rparr>"

definition pushOccurrences :: "ruleFactory \<Rightarrow> rule \<Rightarrow> lineRange list \<Rightarrow> nat \<Rightarrow> ruleFactory" where
  "pushOccurrences f r ranges n =
     (let f1 = updateRuleWithNoSideEffects f (r\<lparr>lineRanges := ranges, occurrences := Some n\<rparr>)
      in f1\<lparr>posted := posted f1 @ [RuleDecorationUpdate (rule_id r) ranges n]\<rparr>)"

section \<open>The decoration type manager\<close>

text \<open>
  The manager's fields. Sets are kept as lists in insertion order, maps as partial
  functions. Decoration type handles are numbered in the order the host creates them.
  \<open>lastActiveEditor\<close> holds the identity of the editor it refers to.
\<close>

record manager =
  activeEditor :: "textEditor option"
  lastActiveEditor :: "nat option"
  decorationSet :: "nat list"
  factoryToDecorations :: "locationState \<rightharpoonup> nat list"
  ruleToDecorationType :: "string \<rightharpoonup> nat"
  ruleToActiveOccurrences :: "string \<rightharpoonup> range list"
  factoryToOldEnabledRules :: "locationState \<rightharpoonup> rule list"
  activeDecorations :: "nat \<rightharpoonup> decorationOptions list"
  createdDecorationTypes :: nat

definition set_add :: "'a list \<Rightarrow> 'a \<Rightarrow> 'a list" where
  "set_add xs x = (if x \<in> set xs then xs else xs @ [x])"

text \<open>\<open>this._activeEditor?.setDecorations(decorationType, decorations)\<close>\<close>

definition editor_setDecorations :: "manager \<Rightarrow> nat \<Rightarrow> decorationOptions list \<Rightarrow> manager" where
  "editor_setDecorations m t ds =
     (case activeEditor m of
        None \<Rightarrow> m
      | Some ed \<Rightarrow> m\<lparr>activeEditor := Some (ed\<lparr>calls := calls ed @ [SetDecorations t ds]\<rparr>)\<rparr>)"

definition clearDecorationsByFactory :: "manager \<Rightarrow> ruleFactory \<Rightarrow> manager" where
  "clearDecorationsByFactory m f =
     foldl (\<lambda>m' t. editor_setDecorations m' t [])
       m (case factoryToDecorations m (location f) of None \<Rightarrow> [] | Some ts \<Rightarrow> ts)"

definition clearDecorations :: "manager \<Rightarrow> rule \<Rightarrow> manager" where
  "clearDecorations m r =
     (case ruleToDecorationType m (rule_id r) of
        Some t \<Rightarrow> editor_setDecorations m t []
      | None \<Rightarrow> m)"

definition getTextEditorDecorationType :: "manager \<Rightarrow> rule \<Rightarrow> nat \<times> manager" where
  "getTextEditorDecorationType m r =
     (let m1 = clearDecorations m r;
          decType = createdDecorationTypes m1
      in (decType,
          m1\<lparr>createdDecorationTypes := decType + 1,
             ruleToDecorationType := (ruleToDecorationType m1)(rule_id r \<mapsto> decType),
             decorationSet := set_add (decorationSet m1) decType\<rparr>))"

text \<open>
  The lines of a buffer, and \<open>toLineRanges\<close>. \<open>lineAt\<close> raises for a line the buffer
  does not have, which makes the whole conversion raise (\<open>None\<close>). The conversion reads
  the host's active editor, taken to be the one the manager holds.
\<close>

fun splitLines :: "string \<Rightarrow> string list" where
  "splitLines [] = [[]]"
| "splitLines (c # cs) =
     (if c = LF then [] # splitLines cs
      else (case splitLines cs of l # ls \<Rightarrow> (c # l) # ls | [] \<Rightarrow> [[c]]))"

definition lineAt_text :: "textDocument \<Rightarrow> nat \<Rightarrow> string option" where
  "lineAt_text doc n =
     (let ls = splitLines (getText doc) in if n < length ls then Some (ls ! n) else None)"

definition toLineRange :: "textDocument \<Rightarrow> string \<Rightarrow> nat \<times> range \<Rightarrow> lineRange option" where
  "toLineRange doc rid ir =
     (let (i, rg) = ir in
      case lineAt_text doc (line (range_start rg)) of
        None \<Rightarrow> None
      | Some _ \<Rightarrow>
          (let lineStartOffset = offsetAt doc (Position (line (range_start rg)) 0);
               numbers = [line (range_start rg) ..< line (range_end rg) + 1]
           in case those (map (lineAt_text doc) numbers) of
                None \<Rightarrow> None
              | Some texts \<Rightarrow>
                  Some \<lparr>ruleId = rid, index = int i, lines = texts, lineNumbers = numbers,
                        startIndex = int (offsetAt doc (range_start rg)) - int lineStartOffset,
                        endIndexExcl = int (offsetAt doc (range_end rg)) - int lineStartOffset,
                        selectionNumber = int i\<rparr>))"

definition toLineRanges :: "textDocument \<Rightarrow> string \<Rightarrow> range list \<Rightarrow> lineRange list option" where
  "toLineRanges doc rid ranges = those (map (toLineRange doc rid) (enumerate 0 ranges))"

text \<open>
  The body of the \<open>try\<close> block of \<open>updateDecorations\<close>, with its \<open>catch\<close>: whatever
  is raised inside (by the pattern's compilation or by \<open>toLineRanges\<close>) ends in
  \<open>pushOccurrences(rule, [], 0)\<close>, and what was assigned before stays assigned.
\<close>

definition decorateRule ::
  "engine \<Rightarrow> textDocument \<Rightarrow> manager \<times> ruleFactory \<Rightarrow> rule \<Rightarrow> manager \<times> ruleFactory" where
  "decorateRule new_RegExp doc s r =
     (let (m, f) = s in
      case new_RegExp (regularExpression r) (flags_or_g r) of
        None \<Rightarrow> (m, pushOccurrences f r [] 0)
      | Some regEx \<Rightarrow>
          (let (decorations, ranges) = scan_loop doc r regEx 0 0 [] [];
               m1 = m\<lparr>ruleToActiveOccurrences := (ruleToActiveOccurrences m)(rule_id r \<mapsto> ranges)\<rparr>
           in case toLineRanges doc (rule_id r) ranges of
                None \<Rightarrow> (m1, pushOccurrences f r [] 0)
              | Some lrs \<Rightarrow>
                  (let f1 = pushOccurrences f r lrs (length decorations);
                       (decType, m2) = getTextEditorDecorationType m1 r;
                       m3 = (case factoryToDecorations m2 (location f) of
                               None \<Rightarrow> m2
                             | Some ts \<Rightarrow>
                                 m2\<lparr>factoryToDecorations :=
                                      (factoryToDecorations m2)(location f \<mapsto> set_add ts decType)\<rparr>);
                       m4 = m3\<lparr>activeDecorations := (activeDecorations m3)(decType \<mapsto> decorations)\<rparr>
                   in (editor_setDecorations m4 decType decorations, f1))))"

text \<open>
  One round of the \<open>for\<close> loop over the enabled rules. The two filename filters are
  compiled, with no flags, before the \<open>try\<close> block is entered.
\<close>

definition processRule ::
  "engine \<Rightarrow> textDocument \<Rightarrow> manager \<times> ruleFactory \<Rightarrow> rule \<Rightarrow> (manager \<times> ruleFactory) outcome" where
  "processRule new_RegExp doc s r =
     (let (m, f) = s in
      case (if excludedFiles r = [] then Some False
            else map_option (\<lambda>exclude. test exclude (fileName doc))
                   (new_RegExp (excludedFiles r) [])) of
        None \<Rightarrow> Throws SyntaxError s
      | Some True \<Rightarrow> Returns (m, pushOccurrences f r [] 0)
      | Some False \<Rightarrow>
          (case (if includedFiles r = [] then Some True
                 else map_option (\<lambda>include. test include (fileName doc))
                        (new_RegExp (includedFiles r) [])) of
             None \<Rightarrow> Throws SyntaxError s
           | Some False \<Rightarrow> Returns (m, pushOccurrences f r [] 0)
           | Some True \<Rightarrow>
               if regularExpression r = [] then Returns (m, pushOccurrences f r [] 0)
               else Returns (decorateRule new_RegExp doc s r)))"

fun processRules ::
  "engine \<Rightarrow> textDocument \<Rightarrow> manager \<times> ruleFactory \<Rightarrow> rule list
     \<Rightarrow> (manager \<times> ruleFactory) outcome" where
  "processRules new_RegExp doc s [] = Returns s"
| "processRules new_RegExp doc s (r # rs) =
     (case processRule new_RegExp doc s r of
        Returns s' \<Rightarrow> processRules new_RegExp doc s' rs
      | Throws e s' \<Rightarrow> Throws e s')"

definition updateDecorations ::
  "engine \<Rightarrow> manager \<Rightarrow> rule list \<Rightarrow> ruleFactory \<Rightarrow> (manager \<times> ruleFactory) outcome" where
  "updateDecorations new_RegExp m enabledRules f =
     (if locked f then Returns (m, f)
      else
        (case activeEditor m of
           None \<Rightarrow> Returns (m, foldl (\<lambda>g r. pushOccurrences g r [] 0) f enabledRules)
         | Some ed \<Rightarrow>
             (let m1 = (if Some (editorId ed) \<noteq> lastActiveEditor m
                        then m\<lparr>lastActiveEditor := Some (editorId ed),
                               ruleToDecorationType := Map.empty\<rparr>
                        else m);
                  m2 = clearDecorationsByFactory m1 f
              in processRules new_RegExp (document ed) (m2, f) enabledRules)))"

text \<open>The comparison of one rule with the rule at the same place of the previous list.\<close>

definition ruleChanged :: "rule \<Rightarrow> rule \<Rightarrow> bool" where
  "ruleChanged matchingOldRule element =
     (rule_id element \<noteq> rule_id matchingOldRule \<or>
      backgroundColor matchingOldRule \<noteq> backgroundColor element \<or>
      border matchingOldRule \<noteq> border element \<or>
      borderColor matchingOldRule \<noteq> borderColor element \<or>
      borderWidth matchingOldRule \<noteq> borderWidth element \<or>
      color matchingOldRule \<noteq> color element \<or>
      cursor matchingOldRule \<noteq> cursor element \<or>
      excludedFiles matchingOldRule \<noteq> excludedFiles element \<or>
      includedFiles matchingOldRule \<noteq> includedFiles element \<or>
      fontStyle matchingOldRule \<noteq> fontStyle element \<or>
      fontWeight matchingOldRule \<noteq> fontWeight element \<or>
      isWholeLine matchingOldRule \<noteq> isWholeLine element \<or>
      maxOccurrences matchingOldRule \<noteq> maxOccurrences element \<or>
      outline matchingOldRule \<noteq> outline element \<or>
      outlineColor matchingOldRule \<noteq> outlineColor element \<or>
      outlineWidth matchingOldRule \<noteq> outlineWidth element \<or>
      overviewRulerColor matchingOldRule \<noteq> overviewRulerColor element \<or>
      overviewRulerLane matchingOldRule \<noteq> overviewRulerLane element \<or>
      regularExpression matchingOldRule \<noteq> regularExpression element \<or>
      regularExpressionFlags matchingOldRule \<noteq> regularExpressionFlags element \<or>
      textDecoration matchingOldRule \<noteq> textDecoration element \<or>
      title matchingOldRule \<noteq> title element)"

definition isDecorationChangeInArray :: "manager \<Rightarrow> rule list \<Rightarrow> locationState \<Rightarrow> bool" where
  "isDecorationChangeInArray m enabledRules loc =
     (case factoryToOldEnabledRules m loc of
        None \<Rightarrow> True
      | Some oldEnabledRules \<Rightarrow>
          if length enabledRules \<noteq> length oldEnabledRules then True
          else list_ex (\<lambda>i. ruleChanged (oldEnabledRules ! i) (enabledRules ! i))
                 [0 ..< length enabledRules])"

text \<open>
  The subscriber of \<open>$enabledRules\<close> installed by \<open>enableDecorationDetection\<close>. The
  previous list is replaced at the end, so not when the update has thrown.
\<close>

definition enabledRules_next ::
  "engine \<Rightarrow> manager \<Rightarrow> ruleFactory \<Rightarrow> rule list \<Rightarrow> (manager \<times> ruleFactory) outcome" where
  "enabledRules_next new_RegExp m f enabledRules =
     (if isDecorationChangeInArray m enabledRules (location f) then
        (case updateDecorations new_RegExp (clearDecorationsByFactory m f) enabledRules f of
           Throws e s \<Rightarrow> Throws e s
         | Returns (m', f') \<Rightarrow>
             Returns (m'\<lparr>factoryToOldEnabledRules :=
                          (factoryToOldEnabledRules m')(location f \<mapsto> enabledRules)\<rparr>, f'))
      else
        Returns (m\<lparr>factoryToOldEnabledRules :=
                     (factoryToOldEnabledRules m)(location f \<mapsto> enabledRules)\<rparr>, f))"

text \<open>
  \<open>jumpToLine\<close>: the lookup \<open>this._ruleToActiveOccurrences.get(ruleId)?.[index]\<close>,
  and the reveal that follows when a range was found and an editor is active.
\<close>

definition jump_lookup :: "manager \<Rightarrow> lineRange \<Rightarrow> range option" where
  "jump_lookup m lr =
     (case ruleToActiveOccurrences m (ruleId lr) of
        None \<Rightarrow> None
      | Some ranges \<Rightarrow>
          if 0 \<le> index lr \<and> index lr < int (length ranges)
          then Some (ranges ! nat (index lr)) else None)"

definition jumpToLine :: "manager \<Rightarrow> lineRange \<Rightarrow> manager" where
  "jumpToLine m lr =
     (case jump_lookup m lr of
        None \<Rightarrow> m
      | Some rg \<Rightarrow>
          (case activeEditor m of
             Some ed \<Rightarrow> m\<lparr>activeEditor := Some (ed\<lparr>calls := calls ed @ [RevealRange rg]\<rparr>)\<rparr>
           | None \<Rightarrow> m))"

text \<open>The two constructors: the manager's and the factory's (with an empty storage).\<close>

definition new_RuleFactory :: "locationState \<Rightarrow> ruleFactory" where
  "new_RuleFactory loc =
     \<lparr>location = loc, locked = False, rulesMap = [], rulesArray = [],
      enabledRules_sent = [], posted = []\<rparr>"

definition new_DecorationTypeManager :: "ruleFactory list \<Rightarrow> manager" where
  "new_DecorationTypeManager factories =
     \<lparr>activeEditor = None, lastActiveEditor = None, decorationSet = [],
      factoryToDecorations = map_of (map (\<lambda>f. (location f, [])) factories),
      ruleToDecorationType = Map.empty, ruleToActiveOccurrences = Map.empty,
      factoryToOldEnabledRules = Map.empty, activeDecorations = Map.empty,
      createdDecorationTypes = 0\<rparr>"

text \<open>The wrapper's constructor, given the handle the host hands out for its style.\<close>

definition new_DecorationTypeWrapper :: "textDocument \<Rightarrow> rule \<Rightarrow> nat \<Rightarrow> wrapper" where
  "new_DecorationTypeWrapper doc r handle =
     \<lparr>w_document = doc, w_rule = r, decorationType = handle, decorationOptions = [],
      activeOccurrences = []\<rparr>"

section \<open>Notions used to state the properties\<close>

fun state_of :: "'s outcome \<Rightarrow> 's" where
  "state_of (Returns s) = s"
| "state_of (Throws e s) = s"

fun thrown :: "'s outcome \<Rightarrow> error option" where
  "thrown (Returns s) = None"
| "thrown (Throws e s) = Some e"

text \<open>
  The wrapper as an edit notification finds it: the host has already applied the change
  to the buffer the wrapper refers to.
\<close>

definition after_change :: "wrapper \<Rightarrow> contentChange \<Rightarrow> wrapper" where
  "after_change w ch = w\<lparr>w_document := applyChange (w_document w) ch\<rparr>"

text \<open>
  The store invariant of the specification: ranges sorted by start, and each range ends
  at or before the start of the next.
\<close>

fun sorted_nonoverlapping :: "range list \<Rightarrow> bool" where
  "sorted_nonoverlapping [] = True"
| "sorted_nonoverlapping [r] = True"
| "sorted_nonoverlapping (r # s # rs) =
     (isBeforeOrEqual (range_start r) (range_start s) \<and>
      isBeforeOrEqual (range_end r) (range_start s) \<and>
      sorted_nonoverlapping (s # rs))"

text \<open>
  The candidate span in the specification's words: the edit's old range, expanded by one
  unit of the buffer's offset space on each side and clamped to the buffer.
\<close>

definition spec_candidate_span :: "textDocument \<Rightarrow> range \<Rightarrow> range" where
  "spec_candidate_span doc r =
     (let s = offsetAt doc (range_start r);
          e = offsetAt doc (range_end r)
      in Range (positionAt doc (s - 1)) (positionAt doc (min (length (getText doc)) (e + 1))))"






text \<open>Whether a filename filter matches the name of the buffer.\<close>

definition matches_name :: "engine \<Rightarrow> string \<Rightarrow> textDocument \<Rightarrow> bool" where
  "matches_name new_RegExp p doc =
     (case new_RegExp p [] of Some re \<Rightarrow> test re (fileName doc) | None \<Rightarrow> False)"

text \<open>
  The scan a rule is owed by an update: none when there is no buffer, when the buffer's
  name is excluded or not included by the rule's filters, when the pattern is empty or when
  it does not compile; otherwise the full scan of the buffer, up to the cap.
\<close>

definition scanned ::
  "engine \<Rightarrow> textDocument option \<Rightarrow> rule \<Rightarrow> (decorationOptions list \<times> range list) option" where
  "scanned new_RegExp buffer r =
     (case buffer of
        None \<Rightarrow> None
      | Some doc \<Rightarrow>
          if excludedFiles r \<noteq> [] \<and> matches_name new_RegExp (excludedFiles r) doc then None
          else if includedFiles r \<noteq> [] \<and> \<not> matches_name new_RegExp (includedFiles r) doc
          then None
          else if regularExpression r = [] then None
          else map_option (\<lambda>regEx. scan_loop doc r regEx 0 0 [] [])
                 (new_RegExp (regularExpression r) (flags_or_g r)))"

text \<open>
  What is to be published for a rule: the line ranges of its scan and the number of its
  matches, or no range and 0 when it is not scanned; the message that carries it, and the
  rule as the publisher records it in the storage.
\<close>

definition published :: "engine \<Rightarrow> textDocument option \<Rightarrow> rule \<Rightarrow> lineRange list \<times> nat" where
  "published new_RegExp buffer r =
     (case buffer of
        None \<Rightarrow> ([], 0)
      | Some doc \<Rightarrow>
          (case scanned new_RegExp buffer r of
             None \<Rightarrow> ([], 0)
           | Some (decorations, ranges) \<Rightarrow>
               (case toLineRanges doc (rule_id r) ranges of
                  None \<Rightarrow> ([], 0)
                | Some lrs \<Rightarrow> (lrs, length decorations))))"





definition publish :: "engine \<Rightarrow> textDocument option \<Rightarrow> ruleFactory \<Rightarrow> rule \<Rightarrow> ruleFactory" where
  "publish new_RegExp buffer f r =
     pushOccurrences f r (fst (published new_RegExp buffer r)) (snd (published new_RegExp buffer r))"







section \<open>Example inputs\<close>

definition example_rule :: "string \<Rightarrow> string \<Rightarrow> nat \<Rightarrow> rule" where
  "example_rule uuid pattern n =
     (new_Rule uuid ''example'')\<lparr>enabled := True, regularExpression := pattern,
                                   maxOccurrences := Some n\<rparr>"

definition example_document :: "string \<Rightarrow> textDocument" where
  "example_document t = \<lparr>fileName = ''notes.txt'', getText = t\<rparr>"

definition example_editor :: "string \<Rightarrow> textEditor" where
  "example_editor t = \<lparr>editorId = 1, document = example_document t, calls = []\<rparr>"

definition example_manager :: "string \<Rightarrow> manager" where
  "example_manager t =
     (new_DecorationTypeManager [new_RuleFactory LOCAL, new_RuleFactory GLOBAL])
       \<lparr>activeEditor := Some (example_editor t)\<rparr>"

text \<open>Typing \<open>t\<close> at a position: the replaced range is empty.\<close>

definition typed_at :: "nat \<Rightarrow> nat \<Rightarrow> string \<Rightarrow> contentChange" where
  "typed_at l c t = \<lparr>change_range = Range (Position l c) (Position l c), change_text = t\<rparr>"

text \<open>
  What a run of the incremental update left in the store, when it returned normally.
\<close>

fun returned_store :: "wrapper outcome option \<Rightarrow> range list option" where
  "returned_store (Some (Returns w)) = Some (activeOccurrences w)"
| "returned_store (Some (Throws e w)) = None"
| "returned_store None = None"

text \<open>Deleting the text between two positions: the new text is empty.\<close>

definition deleted :: "position \<Rightarrow> position \<Rightarrow> contentChange" where
  "deleted p q = \<lparr>change_range = Range p q, change_text = []\<rparr>"

text \<open>
  One edit as the wrapper goes through it: the host applies the change to the buffer, then
  the incremental update runs; \<open>None\<close> unless it returns normally within the budget.
\<close>

definition edited :: "nat \<Rightarrow> wrapper \<Rightarrow> contentChange \<Rightarrow> wrapper option" where
  "edited budget w ch =
     (case generateOccurrencesOnChange plain_RegExp budget (after_change w ch) ch of
        Some (Returns w') \<Rightarrow> Some w'
      | Some (Throws e w') \<Rightarrow> None
      | None \<Rightarrow> None)"

text \<open>A wrapper for a rule on a buffer, after its first full rebuild.\<close>

definition rebuilt_wrapper :: "string \<Rightarrow> rule \<Rightarrow> wrapper" where
  "rebuilt_wrapper t r =
     state_of (updateOccurrences plain_RegExp
       (new_DecorationTypeWrapper (example_document t) r 0) (example_document t) None)"

text \<open>A manager that tracks one rule on a buffer, and a jump request.\<close>

definition example_tracked :: manager where
  "example_tracked =
     fst (state_of (updateDecorations plain_RegExp (example_manager ''foo bar foo'')
       [example_rule ''r2'' ''foo'' 1000] (new_RuleFactory LOCAL)))"

definition example_lineRange :: "string \<Rightarrow> int \<Rightarrow> lineRange" where
  "example_lineRange rid i =
     \<lparr>ruleId = rid, index = i, lines = [], lineNumbers = [], startIndex = 0,
      endIndexExcl = 0, selectionNumber = i\<rparr>"



text \<open>An editor showing another file.\<close>

definition other_editor :: textEditor where
  "other_editor =
     \<lparr>editorId = 2, document = \<lparr>fileName = ''other.txt'', getText = ''foo''\<rparr>, calls = []\<rparr>"

section \<open>Facts about the publisher and the update loop\<close>


lemma pushOccurrences_location: "location (pushOccurrences f r lrs n) = location f"
  by (simp add: pushOccurrences_def updateRuleWithNoSideEffects_def Let_def)

lemma decorateRule_location: "location (snd (decorateRule E doc (m, f) r)) = location f"
  by (auto simp: decorateRule_def Let_def pushOccurrences_location split: option.splits prod.splits)

lemma processRule_location:
  "processRule E doc (m, f) r = Returns (m', f') \<Longrightarrow> location f' = location f"
  using decorateRule_location[of E doc m f r]
  by (auto simp: processRule_def Let_def pushOccurrences_location
      split: option.splits bool.splits if_splits)

lemma processRules_location:
  "processRules E doc (m, f) rs = Returns (m', f') \<Longrightarrow> location f' = location f"
proof (induction rs arbitrary: m f)
  case Nil
  then show ?case by simp
next
  case (Cons r rs)
  then show ?case
    by (auto split: outcome.splits dest: processRule_location)
qed

lemma push_all_location:
  "location (foldl (\<lambda>g r. pushOccurrences g r [] 0) f rs) = location f"
  by (induction rs arbitrary: f) (simp_all add: pushOccurrences_location)

lemma updateDecorations_location:
  "updateDecorations E m rs f = Returns (m', f') \<Longrightarrow> location f' = location f"
  by (auto simp: updateDecorations_def Let_def push_all_location
      split: if_splits option.splits dest: processRules_location)

lemma ruleChanged_same: "\<not> ruleChanged r r"
  by (simp add: ruleChanged_def)

lemma no_change_same:
  "factoryToOldEnabledRules m loc = Some rs \<Longrightarrow> \<not> isDecorationChangeInArray m rs loc"
  by (simp add: isDecorationChangeInArray_def ruleChanged_same list_ex_iff)

lemma returned_state: "thrown out = None \<Longrightarrow> out = Returns (state_of out)"
  by (cases out) simp_all

section \<open>Facts about the conversion to line ranges\<close>












section \<open>Facts about one round of the update loop\<close>














lemma publish_location: "location (publish E b f r) = location f"
  by (simp add: publish_def pushOccurrences_location)



lemma publish_all_location: "location (foldl (publish E b) f rs) = location f"
  by (induction rs arbitrary: f) (simp_all add: publish_location)











section \<open>Facts about the lookup of intersecting occurrences\<close>

lemma searchOccurrences_range:
  "0 < removed (fst (searchOccurrences w cr l r)) \<Longrightarrow>
   ird_range (fst (searchOccurrences w cr l r)) \<noteq> None"
proof (induction w cr l r rule: searchOccurrences.induct)
  case (1 w cr left right)
  show ?case
    using "1.prems" "1.IH"
    apply (subst (asm) (1) searchOccurrences.simps)
    apply (subst searchOccurrences.simps)
    apply (auto simp: Let_def notFound_def split: if_splits option.splits prod.splits)
    done
qed

section \<open>Facts about the scan loops\<close>

text \<open>
  The full scan is a total function: its loop stops at the latest when the list it appends
  to has reached the cap. The list never grows beyond the cap, and the two lists it builds
  have the same length.
\<close>

lemma scan_loop_cap:
  "length (fst (scan_loop doc r re lastIndex occurrence decorations ranges))
     \<le> max (length decorations) (cap r)"
proof (induction doc r re lastIndex occurrence decorations ranges rule: scan_loop.induct)
  case (1 doc r re lastIndex occurrence decorations ranges)
  show ?case
    using "1.IH"
    apply (subst scan_loop.simps)
    apply (auto simp: Let_def split: prod.splits option.splits)
    done
qed

lemma scan_loop_sync:
  "length decorations = length ranges \<Longrightarrow>
   length (fst (scan_loop doc r re lastIndex occurrence decorations ranges))
     = length (snd (scan_loop doc r re lastIndex occurrence decorations ranges))"
proof (induction doc r re lastIndex occurrence decorations ranges rule: scan_loop.induct)
  case (1 doc r re lastIndex occurrence decorations ranges)
  show ?case
    using "1.IH" "1.prems"
    apply (subst (1 2) scan_loop.simps)
    apply (auto simp: Let_def split: prod.splits option.splits)
    done
qed

lemma updateOccurrences_cap:
  assumes "updateOccurrences E w doc None = Returns w'"
  shows "length (activeOccurrences w') \<le> cap (w_rule w)"
proof -
  obtain re where re: "E (regularExpression (w_rule w)) (flags_or_g (w_rule w)) = Some re"
    using assms by (auto simp: updateOccurrences_def Let_def split: option.splits)
  have store: "activeOccurrences w' = snd (scan_loop doc (w_rule w) re 0 0 [] [])"
    using assms re by (auto simp: updateOccurrences_def Let_def split: prod.splits)
  show ?thesis
    using scan_loop_cap [of doc "w_rule w" re 0 0 "[]" "[]"]
      scan_loop_sync [of "[]" "[]" doc "w_rule w" re 0 0] store
    by simp
qed

text \<open>
  For an expression with the \<open>g\<close> flag whose matches start at or after the index the
  search starts from, the full scan builds a store that is sorted and non-overlapping:
  offsets only grow, and \<open>positionAt\<close> is monotone.
\<close>

lemma isBeforeOrEqual_refl: "isBeforeOrEqual p p"
  by (simp add: isBeforeOrEqual_def)

lemma isBeforeOrEqual_trans:
  "isBeforeOrEqual p q \<Longrightarrow> isBeforeOrEqual q r \<Longrightarrow> isBeforeOrEqual p r"
  by (auto simp: isBeforeOrEqual_def)

lemma step_position_after: "isBeforeOrEqual p (step_position p c)"
  by (simp add: step_position_def isBeforeOrEqual_def)

lemma foldl_step_after: "isBeforeOrEqual p (foldl step_position p cs)"
proof (induction cs arbitrary: p)
  case Nil
  then show ?case by (simp add: isBeforeOrEqual_refl)
next
  case (Cons c cs)
  show ?case
    using step_position_after [of p c] Cons.IH [of "step_position p c"]
    by (auto intro: isBeforeOrEqual_trans)
qed

lemma positionAt_mono:
  assumes "a \<le> b"
  shows "isBeforeOrEqual (positionAt doc a) (positionAt doc b)"
proof -
  have "take b (getText doc) = take a (getText doc) @ drop a (take b (getText doc))"
    using assms by (metis append_take_drop_id min.absorb1 take_take)
  then have "positionAt doc b
      = foldl step_position (positionAt doc a) (drop a (take b (getText doc)))"
    by (simp add: positionAt_def flip: foldl_append)
  then show ?thesis
    by (simp add: foldl_step_after)
qed

lemma Range_of_ordered:
  "isBeforeOrEqual p q \<Longrightarrow> range_start (Range p q) = p \<and> range_end (Range p q) = q"
  by (auto simp: Range_def isBefore_def isBeforeOrEqual_def position.expand)

lemma sorted_nonoverlapping_snoc:
  "sorted_nonoverlapping (rs @ [r]) =
     (sorted_nonoverlapping rs \<and>
      (rs = [] \<or> (isBeforeOrEqual (range_start (last rs)) (range_start r) \<and>
                   isBeforeOrEqual (range_end (last rs)) (range_start r))))"
  by (induction rs rule: sorted_nonoverlapping.induct) auto

lemma scan_loop_sorted:
  assumes "global re"
    and "\<And>s i idx n. search re s i = Some (idx, n) \<Longrightarrow> i \<le> idx"
    and "sorted_nonoverlapping ranges"
    and "ranges = [] \<or> (isBeforeOrEqual (range_start (last ranges)) (range_end (last ranges)) \<and>
           isBeforeOrEqual (range_end (last ranges)) (positionAt doc lastIndex))"
  shows "sorted_nonoverlapping
           (snd (scan_loop doc r re lastIndex occurrence decorations ranges))"
  using assms
proof (induction doc r re lastIndex occurrence decorations ranges rule: scan_loop.induct)
  case (1 doc r re lastIndex occurrence decorations ranges)
  note glob = "1.prems"(1) and adv = "1.prems"(2) and inv = "1.prems"(3,4)
  show ?case
  proof (cases "exec re lastIndex (getText doc)")
    case (Pair mo lastIndex')
    show ?thesis
    proof (cases mo)
      case None
      then show ?thesis
        using Pair inv by (subst scan_loop.simps) simp
    next
      case (Some m)
      obtain i n where m: "m = (i, n)" by (cases m)
      show ?thesis
      proof (cases "length decorations < cap r")
        case False
        then show ?thesis
          using Pair Some m inv by (subst scan_loop.simps) simp
      next
        case True
        have found: "search re (getText doc) lastIndex = Some (i, n)" and next_index: "lastIndex' = i + n"
          using Pair Some m glob
          by (auto simp: exec_def split: if_splits option.splits)
        have le: "lastIndex \<le> i"
          using adv [OF found] .
        let ?rg = "Range (positionAt doc i) (positionAt doc (i + n))"
        have ends: "range_start ?rg = positionAt doc i" "range_end ?rg = positionAt doc (i + n)"
          using Range_of_ordered [OF positionAt_mono [of i "i + n" doc]] by simp_all
        have sorted: "sorted_nonoverlapping (ranges @ [?rg])"
          using inv ends positionAt_mono [OF le, of doc]
          by (auto simp: sorted_nonoverlapping_snoc intro: isBeforeOrEqual_trans)
        have last_ok: "isBeforeOrEqual (range_start (last (ranges @ [?rg])))
              (range_end (last (ranges @ [?rg]))) \<and>
            isBeforeOrEqual (range_end (last (ranges @ [?rg]))) (positionAt doc lastIndex')"
          using ends next_index positionAt_mono [of i "i + n" doc]
          by (simp add: isBeforeOrEqual_refl)
        show ?thesis
          using "1.IH" [OF Pair [symmetric] _ _ True refl refl refl refl glob adv sorted]
            Pair Some m True last_ok
          apply (subst scan_loop.simps)
          apply (simp add: Let_def)
          done
      qed
    qed
  qed
qed

lemma updateOccurrences_sorted:
  assumes "updateOccurrences E w doc None = Returns w'"
    and "E (regularExpression (w_rule w)) (flags_or_g (w_rule w)) = Some re"
    and "global re"
    and "\<And>s i idx n. search re s i = Some (idx, n) \<Longrightarrow> i \<le> idx"
  shows "sorted_nonoverlapping (activeOccurrences w')"
proof -
  have "activeOccurrences w' = snd (scan_loop doc (w_rule w) re 0 0 [] [])"
    using assms(1,2) by (auto simp: updateOccurrences_def Let_def split: prod.splits)
  then show ?thesis
    using scan_loop_sorted [OF assms(3,4), where ranges = "[]" and doc = doc and lastIndex = 0
        and r = "w_rule w" and occurrence = 0 and decorations = "[]"]
    by simp
qed

text \<open>
  Without the \<open>g\<close> flag \<open>exec\<close> starts from 0 each time, so the full scan stores the
  first match again and again until the cap is reached.
\<close>

lemma rebuild_without_g_repeats:
  "activeOccurrences (rebuilt_wrapper ''a''
       ((example_rule ''r1'' ''a'' 3)\<lparr>regularExpressionFlags := Some ''m''\<rparr>))
     = [Range_raw (Position 0 0) (Position 0 1), Range_raw (Position 0 0) (Position 0 1),
        Range_raw (Position 0 0) (Position 0 1)]"
  by code_simp

text \<open>
  The two scenarios of the specification. Replacing \<open>bar\<close> by \<open>barbaz\<close> in
  \<open>foo bar foo\<close> removes both stored matches (the looked-up span covers the line) and
  the rescan of the line finds them at their new places; with the cap 1 the rebuild of
  \<open>aaa\<close> for the rule \<open>a\<close> stores one match.
\<close>

lemma scenario_replace_bar:
  "map_option activeOccurrences
     (edited 4 (rebuilt_wrapper ''foo bar foo'' (example_rule ''r1'' ''foo'' 1000))
        \<lparr>change_range = Range (Position 0 4) (Position 0 7), change_text = ''barbaz''\<rparr>)
     = Some [Range_raw (Position 0 0) (Position 0 3), Range_raw (Position 0 11) (Position 0 14)]"
  by code_simp

lemma scenario_cap_one:
  "activeOccurrences (rebuilt_wrapper ''aaa'' (example_rule ''r1'' ''a'' 1))
     = [Range_raw (Position 0 0) (Position 0 1)]"
  by code_simp

text \<open>
  The rescan loop tests the length of the wrapper's list, which it does not change. While
  that length is below the cap, an expression whose \<open>exec\<close> returns a match and leaves
  \<open>lastIndex\<close> where it was keeps the loop running whatever the budget.
\<close>

lemma rescan_loop_stuck:
  assumes "length (decorationOptions w) < cap (w_rule w)"
    and "exec regEx lastIndex text = (Some (i, n), lastIndex)"
  shows "rescan_loop budget w regEx text offset lastIndex occurrence newDecorations
           newOccurrences = None"
  using assms
  by (induction budget arbitrary: occurrence newDecorations newOccurrences) (simp_all add: Let_def)

lemma find_from_empty: "find_from [] s k = Some k"
  by (cases s) simp_all

lemma exec_empty_pattern:
  "exec \<lparr>search = plain_search [], global = True\<rparr> 0 text = (Some (0, 0), 0)"
  by (simp add: exec_def plain_search_def find_from_empty)

lemma plain_empty: "plain_RegExp [] ''g'' = Some \<lparr>search = plain_search [], global = True\<rparr>"
  by (simp add: plain_RegExp_def)

section \<open>The claims\<close>

text \<open>
  Claim C9. The jump lookup returns the stored range at the given ordinal when the rule id
  is known and the ordinal is inside the rule's list, and the reveal is then made on the
  active editor with that range; when the rule id is unknown or the ordinal is outside the
  list, the lookup is absent and \<open>jumpToLine\<close> changes nothing.
\<close>

theorem jumpToLine_lookup:
  "(ruleToActiveOccurrences m (ruleId lr) = None \<longrightarrow>
      jump_lookup m lr = None \<and> jumpToLine m lr = m) \<and>
   (\<forall>ranges. ruleToActiveOccurrences m (ruleId lr) = Some ranges \<longrightarrow>
      (if 0 \<le> index lr \<and> index lr < int (length ranges)
       then jump_lookup m lr = Some (ranges ! nat (index lr)) \<and>
            (\<forall>ed. activeEditor m = Some ed \<longrightarrow>
               jumpToLine m lr =
                 m\<lparr>activeEditor :=
                     Some (ed\<lparr>calls := calls ed @ [RevealRange (ranges ! nat (index lr))]\<rparr>)\<rparr>)
       else jump_lookup m lr = None \<and> jumpToLine m lr = m))"
  by (simp add: jump_lookup_def jumpToLine_def)


theorem jumpToLine_lookup_witness:
  "jump_lookup example_tracked (example_lineRange ''r2'' 1)
     = Some (Range_raw (Position 0 8) (Position 0 11)) \<and>
   jump_lookup example_tracked (example_lineRange ''r2'' 2) = None \<and>
   jumpToLine example_tracked (example_lineRange ''r2'' 2) = example_tracked \<and>
   jump_lookup example_tracked (example_lineRange ''zz'' 0) = None \<and>
   jumpToLine example_tracked (example_lineRange ''zz'' 0) = example_tracked"
proof -
  have known: "ruleToActiveOccurrences example_tracked ''r2''
      = Some [Range_raw (Position 0 0) (Position 0 3), Range_raw (Position 0 8) (Position 0 11)]"
    by code_simp
  have unknown: "ruleToActiveOccurrences example_tracked ''zz'' = None"
    by code_simp
  show ?thesis
    using jumpToLine_lookup [of example_tracked "example_lineRange ''r2'' 1"]
      jumpToLine_lookup [of example_tracked "example_lineRange ''r2'' 2"]
      jumpToLine_lookup [of example_tracked "example_lineRange ''zz'' 0"]
      known unknown
    by (simp add: example_lineRange_def)
qed

text \<open>
  Claim C7, as amended. \<open>removeIntersectingOccurrences\<close> moves the start of the range
  it is given one character to the left, unless the start is in column 0, and its end one
  character to the right (whatever the length of that line). The incremental update passes
  it the edit's old range widened to whole lines, so the span that is looked up runs from
  column 0 of the edit's first line to column 1 of the line after its last line.
\<close>

theorem shiftRange_span:
  assumes "isBeforeOrEqual (range_start r) (range_end r)"
  shows "shiftRange r =
           Range_raw
             (if character (range_start r) > 0
              then Position (line (range_start r)) (character (range_start r) - 1)
              else range_start r)
             (Position (line (range_end r)) (character (range_end r) + 1)) \<and>
         shiftRange (getFullLineRange r) =
           Range_raw (Position (line (range_start r)) 0) (Position (line (range_end r) + 1) 1)"
  using assms
  by (auto simp: shiftRange_def getFullLineRange_def Range_def isBefore_def isBeforeOrEqual_def
      translate_character_def Let_def)

theorem shiftRange_span_witness:
  "isBeforeOrEqual (range_start (Range (Position 2 5) (Position 3 0)))
     (range_end (Range (Position 2 5) (Position 3 0))) \<and>
   shiftRange (Range (Position 2 5) (Position 3 0))
     = Range_raw (Position 2 4) (Position 3 1) \<and>
   shiftRange (getFullLineRange (Range (Position 2 5) (Position 3 0)))
     = Range_raw (Position 2 0) (Position 4 1)"
proof -
  have ordered: "isBeforeOrEqual (range_start (Range (Position 2 5) (Position 3 0)))
     (range_end (Range (Position 2 5) (Position 3 0)))"
    by (simp add: Range_def isBefore_def isBeforeOrEqual_def)
  show ?thesis
    using ordered shiftRange_span [OF ordered]
    by (simp add: Range_def isBefore_def)
qed

text \<open>
  The claim as stated fails: for the edit that replaces columns 4 to 7 of the only line of
  \<open>foo bar foo\<close>, the span looked up is (0,0)-(1,1), not the old range expanded by one
  unit on each side, (0,3)-(0,8).
\<close>

theorem candidate_span_counterexample:
  "shiftRange (getFullLineRange (Range (Position 0 4) (Position 0 7)))
     = Range_raw (Position 0 0) (Position 1 1) \<and>
   spec_candidate_span (example_document ''foo bar foo'') (Range (Position 0 4) (Position 0 7))
     = Range_raw (Position 0 3) (Position 0 8)"
proof -
  have code: "shiftRange (getFullLineRange (Range (Position 0 4) (Position 0 7)))
     = Range_raw (Position 0 0) (Position 1 1)"
    by code_simp
  have spec: "spec_candidate_span (example_document ''foo bar foo'')
       (Range (Position 0 4) (Position 0 7))
     = Range_raw (Position 0 3) (Position 0 8)"
    by code_simp
  show ?thesis using code spec by simp
qed

text \<open>
  Claim C5, as amended. Core operations do throw, by explicit guards:
  \<open>applyDecorationsToEditor\<close> throws exactly when the editor's document has another file
  name than the wrapper's document, and \<open>addRule\<close> exactly when the rule's id is already
  in the factory. The guard of \<open>generateOccurrencesOnChange\<close> against a lookup result with
  removals and no range never fires: the incremental update never throws that error.
\<close>

theorem throw_sites:
  "((\<exists>e s. applyDecorationsToEditor w ed = Throws e s)
      = (fileName (document ed) \<noteq> fileName (w_document w))) \<and>
   ((\<exists>e s. addRule f r = Throws e s) = map_has (rulesMap f) (rule_id r)) \<and>
   generateOccurrencesOnChange E budget w' ch \<noteq> Some (Throws (Error msg) s')"
proof -
  have a: "(\<exists>e s. applyDecorationsToEditor w ed = Throws e s)
      = (fileName (document ed) \<noteq> fileName (w_document w))"
    by (simp add: applyDecorationsToEditor_def)
  have b: "(\<exists>e s. addRule f r = Throws e s) = map_has (rulesMap f) (rule_id r)"
    by (simp add: addRule_def)
  have c: "generateOccurrencesOnChange E budget w' ch \<noteq> Some (Throws (Error msg) s')"
    using searchOccurrences_range [of w' "shiftRange (getFullLineRange (change_range ch))" 0
        "int (length (activeOccurrences w')) - 1"]
    by (auto simp: generateOccurrencesOnChange_def removeIntersectingOccurrences_def Let_def
        split: prod.splits option.splits)
  show ?thesis using a b c by blast
qed

text \<open>
  The claim as stated fails: applying a wrapper's decorations to an editor that shows
  another document throws.
\<close>

theorem different_document_counterexample:
  "thrown (applyDecorationsToEditor
       (new_DecorationTypeWrapper (example_document ''foo'') (example_rule ''r1'' ''foo'' 1000) 0)
       other_editor)
     = Some (Error
         ''CANNOT APPLY DECORATIONS TO DIFFERENT DOCUMENT - obs -> other.txt != expected ->notes.txt'')"
  by code_simp




text \<open>
  A malformed filename filter after the rule whose pattern does not compile: the first
  rule has its zero report, then the \<open>SyntaxError\<close> of the filter leaves the update
  (claim C6) and the third rule is not reached.
\<close>

lemma bad_pattern_then_bad_filter:
  "thrown (updateDecorations plain_RegExp (example_manager ''foo bar foo'')
       [example_rule ''r1'' ''('' 1000,
        (example_rule ''r2'' ''foo'' 1000)\<lparr>includedFiles := ''(''\<rparr>,
        example_rule ''r3'' ''foo'' 1000]
       (new_RuleFactory LOCAL)) = Some SyntaxError \<and>
   posted (snd (state_of (updateDecorations plain_RegExp (example_manager ''foo bar foo'')
       [example_rule ''r1'' ''('' 1000,
        (example_rule ''r2'' ''foo'' 1000)\<lparr>includedFiles := ''(''\<rparr>,
        example_rule ''r3'' ''foo'' 1000]
       (new_RuleFactory LOCAL))))
     = [RuleDecorationUpdate ''r1'' [] 0]"
proof -
  have escapes: "thrown (updateDecorations plain_RegExp (example_manager ''foo bar foo'')
       [example_rule ''r1'' ''('' 1000,
        (example_rule ''r2'' ''foo'' 1000)\<lparr>includedFiles := ''(''\<rparr>,
        example_rule ''r3'' ''foo'' 1000]
       (new_RuleFactory LOCAL)) = Some SyntaxError"
    by code_simp
  have first_only: "posted (snd (state_of (updateDecorations plain_RegExp
       (example_manager ''foo bar foo'')
       [example_rule ''r1'' ''('' 1000,
        (example_rule ''r2'' ''foo'' 1000)\<lparr>includedFiles := ''(''\<rparr>,
        example_rule ''r3'' ''foo'' 1000]
       (new_RuleFactory LOCAL))))
     = [RuleDecorationUpdate ''r1'' [] 0]"
    by code_simp
  show ?thesis using escapes first_only by simp
qed

text \<open>
  Claim C8. When the delivery of an enabled-rule list has completed, delivering the same
  list again changes nothing: the manager (its stores, the calls recorded on its editor)
  and the factory (its storage, the messages posted) are the ones the first delivery left.
\<close>

theorem same_list_twice:
  assumes "enabledRules_next E m f rs = Returns (m1, f1)"
  shows "enabledRules_next E m1 f1 rs = Returns (m1, f1)"
proof -
  have loc: "location f1 = location f"
    and old: "factoryToOldEnabledRules m1 (location f) = Some rs"
    using assms
    by (auto simp: enabledRules_next_def split: if_splits outcome.splits prod.splits
        dest: updateDecorations_location)
  have "\<not> isDecorationChangeInArray m1 rs (location f1)"
    using no_change_same old loc by simp
  moreover have "m1\<lparr>factoryToOldEnabledRules :=
                     (factoryToOldEnabledRules m1)(location f1 \<mapsto> rs)\<rparr> = m1"
    using old loc by (simp add: map_upd_triv)
  ultimately show ?thesis
    by (simp add: enabledRules_next_def)
qed

theorem same_list_twice_witness:
  "thrown (enabledRules_next plain_RegExp (example_manager ''foo bar foo'')
       (new_RuleFactory LOCAL) [example_rule ''r2'' ''foo'' 1000]) = None \<and>
   enabledRules_next plain_RegExp
     (fst (state_of (enabledRules_next plain_RegExp (example_manager ''foo bar foo'')
        (new_RuleFactory LOCAL) [example_rule ''r2'' ''foo'' 1000])))
     (snd (state_of (enabledRules_next plain_RegExp (example_manager ''foo bar foo'')
        (new_RuleFactory LOCAL) [example_rule ''r2'' ''foo'' 1000])))
     [example_rule ''r2'' ''foo'' 1000]
   = Returns (state_of (enabledRules_next plain_RegExp (example_manager ''foo bar foo'')
        (new_RuleFactory LOCAL) [example_rule ''r2'' ''foo'' 1000]))"
proof -
  let ?first = "enabledRules_next plain_RegExp (example_manager ''foo bar foo'')
       (new_RuleFactory LOCAL) [example_rule ''r2'' ''foo'' 1000]"
  have returns: "thrown ?first = None"
    by code_simp
  have first: "?first = Returns (fst (state_of ?first), snd (state_of ?first))"
    using returned_state [OF returns] by simp
  show ?thesis
    using returns same_list_twice [OF first] by simp
qed

text \<open>
  Claim C6. A malformed filename filter is compiled outside the \<open>try\<close> block: the
  \<open>SyntaxError\<close> leaves \<open>updateDecorations\<close>, nothing is reported for the rule, and
  the rule after it is not processed.
\<close>

theorem malformed_filter_escapes:
  "thrown (updateDecorations plain_RegExp (example_manager ''foo bar foo'')
       [(example_rule ''r1'' ''foo'' 1000)\<lparr>includedFiles := ''(''\<rparr>,
        example_rule ''r2'' ''foo'' 1000]
       (new_RuleFactory LOCAL))
     = Some SyntaxError \<and>
   posted (snd (state_of (updateDecorations plain_RegExp (example_manager ''foo bar foo'')
       [(example_rule ''r1'' ''foo'' 1000)\<lparr>includedFiles := ''(''\<rparr>,
        example_rule ''r2'' ''foo'' 1000]
       (new_RuleFactory LOCAL))))
     = []"
proof -
  have escapes: "thrown (updateDecorations plain_RegExp (example_manager ''foo bar foo'')
       [(example_rule ''r1'' ''foo'' 1000)\<lparr>includedFiles := ''(''\<rparr>,
        example_rule ''r2'' ''foo'' 1000]
       (new_RuleFactory LOCAL))
     = Some SyntaxError"
    by code_simp
  have silent: "posted (snd (state_of (updateDecorations plain_RegExp (example_manager ''foo bar foo'')
       [(example_rule ''r1'' ''foo'' 1000)\<lparr>includedFiles := ''(''\<rparr>,
        example_rule ''r2'' ''foo'' 1000]
       (new_RuleFactory LOCAL))))
     = []"
    by code_simp
  show ?thesis using escapes silent by simp
qed

text \<open>
  Claim C1. Typing a line break at the start of the two-line buffer \<open>a\<close>, \<open>  foo\<close> leaves the
  store of the rule \<open>foo\<close> at line 1, where the match was; a full rebuild over the final
  text finds it at line 2. And in the buffer of three lines \<open>foo\<close>, an empty line and
  \<open>  foo\<close>, typing \<open>foo\<close> on the empty line and deleting it again gives back the same
  text, with a store of three ranges where the rebuild has two.
\<close>

theorem incremental_differs_from_rebuild:
  "map_option activeOccurrences
     (edited 4 (rebuilt_wrapper ''a\<newline>  foo'' (example_rule ''r1'' ''foo'' 1000))
        (typed_at 0 0 ''\<newline>''))
     = Some [Range_raw (Position 1 2) (Position 1 5)] \<and>
   map_option (\<lambda>w. getText (w_document w))
     (edited 4 (rebuilt_wrapper ''a\<newline>  foo'' (example_rule ''r1'' ''foo'' 1000))
        (typed_at 0 0 ''\<newline>''))
     = Some ''\<newline>a\<newline>  foo'' \<and>
   activeOccurrences (rebuilt_wrapper ''\<newline>a\<newline>  foo'' (example_rule ''r1'' ''foo'' 1000))
     = [Range_raw (Position 2 2) (Position 2 5)] \<and>
   map_option activeOccurrences
     (Option.bind
        (edited 4 (rebuilt_wrapper ''foo\<newline>\<newline>  foo'' (example_rule ''r1'' ''foo'' 1000))
           (typed_at 1 0 ''foo''))
        (\<lambda>w. edited 4 w (deleted (Position 1 0) (Position 1 3))))
     = Some [Range_raw (Position 0 0) (Position 0 3), Range_raw (Position 2 2) (Position 2 5),
             Range_raw (Position 1 0) (Position 1 3)] \<and>
   map_option (\<lambda>w. getText (w_document w))
     (Option.bind
        (edited 4 (rebuilt_wrapper ''foo\<newline>\<newline>  foo'' (example_rule ''r1'' ''foo'' 1000))
           (typed_at 1 0 ''foo''))
        (\<lambda>w. edited 4 w (deleted (Position 1 0) (Position 1 3))))
     = Some ''foo\<newline>\<newline>  foo'' \<and>
   activeOccurrences (rebuilt_wrapper ''foo\<newline>\<newline>  foo'' (example_rule ''r1'' ''foo'' 1000))
     = [Range_raw (Position 0 0) (Position 0 3), Range_raw (Position 2 2) (Position 2 5)]"
proof -
  have incremental: "map_option activeOccurrences
     (edited 4 (rebuilt_wrapper ''a\<newline>  foo'' (example_rule ''r1'' ''foo'' 1000))
        (typed_at 0 0 ''\<newline>''))
     = Some [Range_raw (Position 1 2) (Position 1 5)]"
    by code_simp
  have final: "map_option (\<lambda>w. getText (w_document w))
     (edited 4 (rebuilt_wrapper ''a\<newline>  foo'' (example_rule ''r1'' ''foo'' 1000))
        (typed_at 0 0 ''\<newline>''))
     = Some ''\<newline>a\<newline>  foo''"
    by code_simp
  have full: "activeOccurrences
       (rebuilt_wrapper ''\<newline>a\<newline>  foo'' (example_rule ''r1'' ''foo'' 1000))
     = [Range_raw (Position 2 2) (Position 2 5)]"
    by code_simp
  have round_trip: "map_option activeOccurrences
     (Option.bind
        (edited 4 (rebuilt_wrapper ''foo\<newline>\<newline>  foo'' (example_rule ''r1'' ''foo'' 1000))
           (typed_at 1 0 ''foo''))
        (\<lambda>w. edited 4 w (deleted (Position 1 0) (Position 1 3))))
     = Some [Range_raw (Position 0 0) (Position 0 3), Range_raw (Position 2 2) (Position 2 5),
             Range_raw (Position 1 0) (Position 1 3)]"
    by code_simp
  have same_text: "map_option (\<lambda>w. getText (w_document w))
     (Option.bind
        (edited 4 (rebuilt_wrapper ''foo\<newline>\<newline>  foo'' (example_rule ''r1'' ''foo'' 1000))
           (typed_at 1 0 ''foo''))
        (\<lambda>w. edited 4 w (deleted (Position 1 0) (Position 1 3))))
     = Some ''foo\<newline>\<newline>  foo''"
    by code_simp
  have original: "activeOccurrences
       (rebuilt_wrapper ''foo\<newline>\<newline>  foo'' (example_rule ''r1'' ''foo'' 1000))
     = [Range_raw (Position 0 0) (Position 0 3), Range_raw (Position 2 2) (Position 2 5)]"
    by code_simp
  show ?thesis
    using incremental final full round_trip same_text original by simp
qed

text \<open>
  Claim C2. In the buffer of three lines \<open>foo\<close>, an empty line and \<open>  foo\<close>, typing
  \<open>foo\<close> on the empty line: no stored range intersects the looked-up span, the insert
  index returned is one past the place found by the search, and the new range is stored
  after the range of line 2, so the store is no longer sorted.
\<close>

theorem insert_index_breaks_order:
  "activeOccurrences (rebuilt_wrapper ''foo\<newline>\<newline>  foo'' (example_rule ''r1'' ''foo'' 1000))
     = [Range_raw (Position 0 0) (Position 0 3), Range_raw (Position 2 2) (Position 2 5)] \<and>
   returned_store (generateOccurrencesOnChange plain_RegExp 4
       (after_change (rebuilt_wrapper ''foo\<newline>\<newline>  foo'' (example_rule ''r1'' ''foo'' 1000))
          (typed_at 1 0 ''foo''))
       (typed_at 1 0 ''foo''))
     = Some [Range_raw (Position 0 0) (Position 0 3), Range_raw (Position 2 2) (Position 2 5),
             Range_raw (Position 1 0) (Position 1 3)] \<and>
   \<not> sorted_nonoverlapping
       [Range_raw (Position 0 0) (Position 0 3), Range_raw (Position 2 2) (Position 2 5),
        Range_raw (Position 1 0) (Position 1 3)]"
proof -
  have before: "activeOccurrences (rebuilt_wrapper ''foo\<newline>\<newline>  foo'' (example_rule ''r1'' ''foo'' 1000))
     = [Range_raw (Position 0 0) (Position 0 3), Range_raw (Position 2 2) (Position 2 5)]"
    by code_simp
  have after: "returned_store (generateOccurrencesOnChange plain_RegExp 4
       (after_change (rebuilt_wrapper ''foo\<newline>\<newline>  foo'' (example_rule ''r1'' ''foo'' 1000))
          (typed_at 1 0 ''foo''))
       (typed_at 1 0 ''foo''))
     = Some [Range_raw (Position 0 0) (Position 0 3), Range_raw (Position 2 2) (Position 2 5),
             Range_raw (Position 1 0) (Position 1 3)]"
    by code_simp
  have unsorted: "\<not> sorted_nonoverlapping
       [Range_raw (Position 0 0) (Position 0 3), Range_raw (Position 2 2) (Position 2 5),
        Range_raw (Position 1 0) (Position 1 3)]"
    by (simp add: isBeforeOrEqual_def)
  show ?thesis using before after unsorted by simp
qed

text \<open>
  Claim C3. With the cap 2 and the rule \<open>a\<close> on \<open>aaa\<close>, the full rebuild stores two
  matches; typing \<open>b\<close> at the end of the line removes both and the rescan stores three.
\<close>

theorem rescan_exceeds_cap:
  "cap (example_rule ''r1'' ''a'' 2) = 2 \<and>
   activeOccurrences (rebuilt_wrapper ''aaa'' (example_rule ''r1'' ''a'' 2))
     = [Range_raw (Position 0 0) (Position 0 1), Range_raw (Position 0 1) (Position 0 2)] \<and>
   returned_store (generateOccurrencesOnChange plain_RegExp 5
       (after_change (rebuilt_wrapper ''aaa'' (example_rule ''r1'' ''a'' 2)) (typed_at 0 3 ''b''))
       (typed_at 0 3 ''b''))
     = Some [Range_raw (Position 0 0) (Position 0 1), Range_raw (Position 0 1) (Position 0 2),
             Range_raw (Position 0 2) (Position 0 3)]"
proof -
  have c: "cap (example_rule ''r1'' ''a'' 2) = 2"
    by code_simp
  have before: "activeOccurrences (rebuilt_wrapper ''aaa'' (example_rule ''r1'' ''a'' 2))
     = [Range_raw (Position 0 0) (Position 0 1), Range_raw (Position 0 1) (Position 0 2)]"
    by code_simp
  have after: "returned_store (generateOccurrencesOnChange plain_RegExp 5
       (after_change (rebuilt_wrapper ''aaa'' (example_rule ''r1'' ''a'' 2)) (typed_at 0 3 ''b''))
       (typed_at 0 3 ''b''))
     = Some [Range_raw (Position 0 0) (Position 0 1), Range_raw (Position 0 1) (Position 0 2),
             Range_raw (Position 0 2) (Position 0 3)]"
    by code_simp
  show ?thesis using c before after by simp
qed

text \<open>
  Claim C10. With the empty pattern (an empty match that leaves \<open>lastIndex\<close> where it
  was) and the cap 3, the full rebuild over \<open>a\<close> stops at three matches; after typing
  \<open>b\<close> the incremental rescan does not return, whatever the number of rounds allowed.
\<close>

theorem rescan_never_returns:
  "activeOccurrences (rebuilt_wrapper ''a'' (example_rule ''r1'' [] 3))
     = [Range_raw (Position 0 0) (Position 0 0), Range_raw (Position 0 0) (Position 0 0),
        Range_raw (Position 0 0) (Position 0 0)] \<and>
   (\<forall>budget. generateOccurrencesOnChange plain_RegExp budget
       (after_change (rebuilt_wrapper ''a'' (example_rule ''r1'' [] 3)) (typed_at 0 1 ''b''))
       (typed_at 0 1 ''b'')
     = None)"
proof -
  let ?w = "after_change (rebuilt_wrapper ''a'' (example_rule ''r1'' [] 3)) (typed_at 0 1 ''b'')"
  let ?found = "removeIntersectingOccurrences ?w (getFullLineRange (change_range (typed_at 0 1 ''b'')))"
  have full: "activeOccurrences (rebuilt_wrapper ''a'' (example_rule ''r1'' [] 3))
     = [Range_raw (Position 0 0) (Position 0 0), Range_raw (Position 0 0) (Position 0 0),
        Range_raw (Position 0 0) (Position 0 0)]"
    by code_simp
  have emptied: "decorationOptions (snd ?found) = []"
    by code_simp
  have rule_kept: "w_rule (snd ?found) = example_rule ''r1'' [] 3"
    by code_simp
  have range_given: "ird_range (fst ?found) \<noteq> None"
    by code_simp
  have flags: "flags_or_g (example_rule ''r1'' [] 3) = ''g''"
    by code_simp
  have pattern: "regularExpression (example_rule ''r1'' [] 3) = []"
    by code_simp
  have below: "length (decorationOptions (snd ?found)) < cap (w_rule (snd ?found))"
    unfolding emptied rule_kept by code_simp
  obtain ird w1 where found: "?found = (ird, w1)"
    by (cases ?found)
  have w1_rule: "w_rule w1 = example_rule ''r1'' [] 3" and ird_some: "ird_range ird \<noteq> None"
    and w1_below: "length (decorationOptions w1) < cap (w_rule w1)"
    using rule_kept range_given below found by simp_all
  have compiled: "plain_RegExp (regularExpression (w_rule w1)) (flags_or_g (w_rule w1))
      = Some \<lparr>search = plain_search [], global = True\<rparr>"
    using w1_rule flags pattern plain_empty by simp
  have "generateOccurrencesOnChange plain_RegExp budget ?w (typed_at 0 1 ''b'') = None" for budget
    using found ird_some compiled rescan_loop_stuck [OF w1_below exec_empty_pattern]
    by (simp add: generateOccurrencesOnChange_def Let_def)
  then show ?thesis using full by simp
qed

end
